theory Spec2Isabelle
  imports Main "HOL-Library.Word"
begin

section \<open>Strings\<close>

text \<open>
  A Go string is a sequence of bytes; \<open>string\<close> (a list of 8-bit characters) is read the
  same way. \<open>byte\<close> gives the numeric value of one byte.
\<close>

definition byte :: "char \<Rightarrow> nat" where
  "byte c = of_char c"

text \<open>
  \<^verbatim>\<open>strings.Fields\<close> splits a string around runs of white space, as \<^verbatim>\<open>unicode.IsSpace\<close>
  defines it, and returns the non-empty pieces. The white-space runes are the six ASCII
  ones (tab, line feed, vertical tab, form feed, carriage return, space) and, in UTF-8,
  U+0085 (C2 85), U+00A0 (C2 A0), U+1680 (E1 9A 80), U+2000..U+200A (E2 80 80..8A),
  U+2028, U+2029, U+202F (E2 80 A8, A9, AF), U+205F (E2 81 9F) and U+3000 (E3 80 80).
  Each of them starts with a byte that is never a continuation byte, so scanning the
  bytes one at a time finds exactly the white space that Go finds rune by rune.
  \<open>spaceWidth s\<close> is the number of bytes of the white-space rune that \<open>s\<close> starts with,
  and 0 when it starts with none.
\<close>

definition asciiSpace :: "char \<Rightarrow> bool" where
  "asciiSpace c = (byte c = 9 \<or> byte c = 10 \<or> byte c = 11 \<or> byte c = 12 \<or> byte c = 13 \<or> byte c = 32)"

fun spaceWidth :: "string \<Rightarrow> nat" where
  "spaceWidth [] = 0"
| "spaceWidth (c # cs) =
     (if asciiSpace c then 1
      else if byte c = 0xC2 then
        (case cs of
           d # _ \<Rightarrow> if byte d = 0x85 \<or> byte d = 0xA0 then 2 else 0
         | [] \<Rightarrow> 0)
      else if byte c = 0xE1 then
        (case cs of
           d # e # _ \<Rightarrow> if byte d = 0x9A \<and> byte e = 0x80 then 3 else 0
         | _ \<Rightarrow> 0)
      else if byte c = 0xE2 then
        (case cs of
           d # e # _ \<Rightarrow>
             if byte d = 0x80 \<and> (0x80 \<le> byte e \<and> byte e \<le> 0x8A
                                  \<or> byte e = 0xA8 \<or> byte e = 0xA9 \<or> byte e = 0xAF) then 3
             else if byte d = 0x81 \<and> byte e = 0x9F then 3
             else 0
         | _ \<Rightarrow> 0)
      else if byte c = 0xE3 then
        (case cs of
           d # e # _ \<Rightarrow> if byte d = 0x80 \<and> byte e = 0x80 then 3 else 0
         | _ \<Rightarrow> 0)
      else 0)"

definition flush :: "string \<Rightarrow> string list" where
  "flush cur = (if cur = [] then [] else [rev cur])"

text \<open>
  \<open>fieldsFrom k cur s\<close>: \<open>k\<close> bytes of a white-space rune are still to be skipped, \<open>cur\<close>
  holds the bytes of the field being read (last byte first), \<open>s\<close> is the rest of the input.
\<close>

fun fieldsFrom :: "nat \<Rightarrow> string \<Rightarrow> string \<Rightarrow> string list" where
  "fieldsFrom k cur [] = flush cur"
| "fieldsFrom (Suc k) cur (c # cs) = fieldsFrom k cur cs"
| "fieldsFrom 0 cur (c # cs) =
     (case spaceWidth (c # cs) of
        0 \<Rightarrow> fieldsFrom 0 (c # cur) cs
      | Suc w \<Rightarrow> flush cur @ fieldsFrom w [] cs)"

definition Fields :: "string \<Rightarrow> string list" where
  "Fields s = fieldsFrom 0 [] s"

text \<open>\<^verbatim>\<open>strings.Split(s, sep)\<close> for a one-byte separator: the pieces between the separators,
  empty ones included; a string without the separator is its only piece.\<close>

fun Split :: "char \<Rightarrow> string \<Rightarrow> string list" where
  "Split sep [] = [[]]"
| "Split sep (c # cs) =
     (if c = sep then [] # Split sep cs
      else (case Split sep cs of
              w # ws \<Rightarrow> (c # w) # ws
            | [] \<Rightarrow> [[c]]))"

text \<open>\<^verbatim>\<open>strings.Contains(s, "/")\<close> and \<^verbatim>\<open>strings.Join([]string{a, b}, "/")\<close>.\<close>

definition Contains :: "string \<Rightarrow> char \<Rightarrow> bool" where
  "Contains s c = (c \<in> set s)"

definition Join2 :: "string \<Rightarrow> string \<Rightarrow> char \<Rightarrow> string" where
  "Join2 a b sep = a @ [sep] @ b"

section \<open>Errors\<close>

text \<open>
  Go's \<^verbatim>\<open>error\<close> values, one constructor for each error the program builds and one for the
  errors that the database driver hands back. A nil error is \<open>None\<close>.
\<close>

datatype error =
    DriverError string
  | MalformedVersion string
  | UnparsableVersionOutput string
  | ErrorGettingVersion error
  | UnsupportedVersion "nat list" "nat list"
  | InvalidProviderReference string

section \<open>Versions\<close>

text \<open>
  Modelled from the spec: the version library (\<^verbatim>\<open>github.com/hashicorp/go-version\<close>:
  \<^verbatim>\<open>NewVersion\<close>, \<^verbatim>\<open>LessThan\<close>, \<^verbatim>\<open>Must\<close>) is not part of the sources. The specification describes
  a version as a dot-delimited ordered tuple of integers, compared numerically from left to
  right with missing trailing components read as zero, and has parsing fail with
  \<open>MalformedVersion\<close> on a string that is empty or has a component that is not a number.
\<close>

type_synonym version = "nat list"

datatype ordering = Less | Equal | Greater

definition isDigit :: "char \<Rightarrow> bool" where
  "isDigit c = (48 \<le> byte c \<and> byte c \<le> 57)"

definition parseNat :: "string \<Rightarrow> nat" where
  "parseNat s = foldl (\<lambda>n c. 10 * n + (byte c - 48)) 0 s"

definition isNumber :: "string \<Rightarrow> bool" where
  "isNumber s = (s \<noteq> [] \<and> list_all isDigit s)"

text \<open>
  Modelled from the spec: \<^verbatim>\<open>version.NewVersion\<close> is not part of the sources. A version string is
  its numbers separated by dots; a string that is empty, or has a component that is empty
  or not made of digits, is malformed.
\<close>

definition NewVersion :: "string \<Rightarrow> error + version" where
  "NewVersion s =
     (if list_all isNumber (Split CHR ''.'' s) then Inr (map parseNat (Split CHR ''.'' s))
      else Inl (MalformedVersion s))"

text \<open>
  Modelled from the spec: the comparison of the version library is not part of the sources.
  \<open>compare\<close> goes through the components from the left, numerically, and reads a missing
  trailing component as zero.
\<close>

fun compare :: "version \<Rightarrow> version \<Rightarrow> ordering" where
  "compare [] [] = Equal"
| "compare [] (y # ys) = (if y = 0 then compare [] ys else Less)"
| "compare (x # xs) [] = (if x = 0 then compare xs [] else Greater)"
| "compare (x # xs) (y # ys) =
     (if x < y then Less else if y < x then Greater else compare xs ys)"

text \<open>
  Modelled from the spec: \<^verbatim>\<open>got.LessThan(want)\<close> of the version library is not part of the
  sources; it is \<open>compare\<close> giving \<open>Less\<close>, and \<open>isAtLeast\<close> is \<open>compare\<close> not giving \<open>Less\<close>.
\<close>

definition LessThan :: "version \<Rightarrow> version \<Rightarrow> bool" where
  "LessThan got want = (compare got want = Less)"

definition isAtLeast :: "version \<Rightarrow> version \<Rightarrow> bool" where
  "isAtLeast got want = (compare got want \<noteq> Less)"

text \<open>\<^verbatim>\<open>var MinPostgresVersion = version.Must(version.NewVersion("10.0"))\<close>; \<^verbatim>\<open>Must\<close> panics
  on an error, which does not arise for this literal (lemma \<open>MinPostgresVersion_eq\<close>).\<close>

definition MinPostgresVersion :: version where
  "MinPostgresVersion = (case NewVersion ''10.0'' of Inr v \<Rightarrow> v | Inl _ \<Rightarrow> [])"

section \<open>Contexts, the store connection and the calls made on it\<close>

text \<open>
  A \<^verbatim>\<open>context.Context\<close> is kept symbolically: the caller's context, or one derived from
  another by \<^verbatim>\<open>context.WithTimeout(parent, d)\<close>. A \<^verbatim>\<open>time.Duration\<close> is a number of
  nanoseconds.
\<close>

type_synonym Duration = int

definition Second :: Duration where
  "Second = 1000000000"

datatype "context" = Background | WithTimeout "context" Duration

text \<open>
  \<^verbatim>\<open>model.DatabaseInfo\<close> (declared in \<^verbatim>\<open>pkg/core/database/model\<close>): the version, the uptime (a
  \<^verbatim>\<open>time.Duration\<close>, a 64-bit integer) and the full version banner.
\<close>

record DatabaseInfo =
  Version :: string
  Uptime :: "64 word"
  FullVersion :: string

text \<open>
  The three statements the program sends through \<^verbatim>\<open>pgxscan.Get\<close>:
  \<^item> \<open>SystemIdentifier\<close>: \<^verbatim>\<open>SELECT system_identifier::varchar AS id FROM pg_control_system()\<close>,
  \<^item> \<open>ServerStatus\<close>: the projection of version, uptime and full version,
  \<^item> \<open>VersionBanner\<close>: \<^verbatim>\<open>SELECT version()\<close>.
  A \<^verbatim>\<open>pgxscan.Querier\<close> answers each of them, under the context of the call, with an error
  or with the scanned row; a \<^verbatim>\<open>Get\<close> that fails leaves its destination as it was declared.
\<close>

record Querier =
  SystemIdentifier :: "context \<Rightarrow> error + string"
  ServerStatus :: "context \<Rightarrow> error + DatabaseInfo"
  VersionBanner :: "context \<Rightarrow> error + string"

text \<open>
  A \<^verbatim>\<open>pgxpool.Pool\<close>: it can be pinged, it is a \<open>Querier\<close> itself, and it leases a
  connection, which is a \<open>Querier\<close> of its own.
\<close>

record Pool =
  Ping :: "context \<Rightarrow> error option"
  Queries :: Querier
  Acquire :: "context \<Rightarrow> error + Querier"

text \<open>Every call that reaches the store is recorded, with the context it was made under.\<close>

datatype query = SystemIdentifierQuery | ServerStatusQuery | VersionBannerQuery

datatype call =
    CallConnect "context" string
  | CallPing "context"
  | CallCancel "context"
  | CallGet "context" query
  | CallAcquire "context"
  | CallRelease

section \<open>The executor\<close>

record Executor =
  dsn :: string
  dbId :: string
  info :: DatabaseInfo

definition zeroInfo :: DatabaseInfo where
  "zeroInfo = \<lparr>Version = [], Uptime = 0, FullVersion = []\<rparr>"

definition New :: "string \<Rightarrow> Executor" where
  "New d = \<lparr>dsn = d, dbId = [], info = zeroInfo\<rparr>"

definition ValidatePostgresConnection :: "context \<Rightarrow> Pool \<Rightarrow> error option \<times> call list" where
  "ValidatePostgresConnection ctx pool =
     (let ctx' = WithTimeout ctx (Second * 10)
      in (Ping pool ctx', [CallPing ctx', CallCancel ctx']))"

definition GetDatabaseId :: "context \<Rightarrow> Querier \<Rightarrow> (string \<times> error option) \<times> call list" where
  "GetDatabaseId ctx q =
     (case SystemIdentifier q ctx of
        Inl err \<Rightarrow> (([], Some err), [CallGet ctx SystemIdentifierQuery])
      | Inr result \<Rightarrow> ((result, None), [CallGet ctx SystemIdentifierQuery]))"

definition GetDatabaseInfo :: "context \<Rightarrow> Querier \<Rightarrow> DatabaseInfo \<times> call list" where
  "GetDatabaseInfo ctx q =
     (case ServerStatus q ctx of
        Inl err \<Rightarrow>
          (\<lparr>Version = ''unknown'', Uptime = 0, FullVersion = ''unknown''\<rparr>,
           [CallGet ctx ServerStatusQuery])
      | Inr result \<Rightarrow> (result, [CallGet ctx ServerStatusQuery]))"

definition runningPostgresVersion :: "context \<Rightarrow> Querier \<Rightarrow> (error + version) \<times> call list" where
  "runningPostgresVersion ctx q =
     (case VersionBanner q ctx of
        Inl err \<Rightarrow> (Inl err, [CallGet ctx VersionBannerQuery])
      | Inr result \<Rightarrow>
          (let fields = Fields result
           in if length fields < 2 then
                (Inl (UnparsableVersionOutput result), [CallGet ctx VersionBannerQuery])
              else (NewVersion (fields ! 1), [CallGet ctx VersionBannerQuery])))"

definition doValidatePostgresVersion ::
  "context \<Rightarrow> Querier \<Rightarrow> version \<Rightarrow> error option \<times> call list" where
  "doValidatePostgresVersion ctx q want =
     (case runningPostgresVersion ctx q of
        (Inl err, l) \<Rightarrow> (Some (ErrorGettingVersion err), l)
      | (Inr got, l) \<Rightarrow>
          if LessThan got want then (Some (UnsupportedVersion got want), l)
          else (None, l))"

definition ValidatePostgresVersion :: "context \<Rightarrow> Pool \<Rightarrow> error option \<times> call list" where
  "ValidatePostgresVersion ctx pool =
     (case Acquire pool ctx of
        Inl err \<Rightarrow> (Some err, [CallAcquire ctx])
      | Inr conn \<Rightarrow>
          (case doValidatePostgresVersion ctx conn MinPostgresVersion of
             (r, l) \<Rightarrow> (r, CallAcquire ctx # l @ [CallRelease])))"

text \<open>
  \<^verbatim>\<open>Validate\<close> changes the executor in place and returns \<^verbatim>\<open>(bool, error)\<close>: the model returns
  the executor after the call, the pair, and the calls made. \<^verbatim>\<open>sdkpg.Connect\<close>, which opens
  the pool for a connection string, is the first argument.
\<close>

definition Validate ::
  "(context \<Rightarrow> string \<Rightarrow> error + Pool) \<Rightarrow> context \<Rightarrow> Executor
     \<Rightarrow> Executor \<times> (bool \<times> error option) \<times> call list" where
  "Validate Connect ctx e =
     (case Connect ctx (dsn e) of
        Inl err \<Rightarrow> (e, (False, Some err), [CallConnect ctx (dsn e)])
      | Inr pool \<Rightarrow>
          (case ValidatePostgresConnection ctx pool of
             (Some err, l1) \<Rightarrow> (e, (False, Some err), CallConnect ctx (dsn e) # l1)
           | (None, l1) \<Rightarrow>
               (case GetDatabaseId ctx (Queries pool) of
                  ((ident, dbIdErr), l2) \<Rightarrow>
                    (case GetDatabaseInfo ctx (Queries pool) of
                       (dbInfo, l3) \<Rightarrow>
                         (case ValidatePostgresVersion ctx pool of
                            (Some err, l4) \<Rightarrow>
                              (e\<lparr>dbId := ident, info := dbInfo\<rparr>, (True, Some err),
                               CallConnect ctx (dsn e) # l1 @ l2 @ l3 @ l4)
                          | (None, l4) \<Rightarrow>
                              (e\<lparr>dbId := ident, info := dbInfo\<rparr>, (True, dbIdErr),
                               CallConnect ctx (dsn e) # l1 @ l2 @ l3 @ l4))))))"

definition Info :: "Executor \<Rightarrow> DatabaseInfo \<times> error option" where
  "Info e = (info e, None)"

definition Identifier :: "Executor \<Rightarrow> string \<times> bool" where
  "Identifier e = (if dbId e = [] then ([], False) else (dbId e, True))"

section \<open>Provider sources\<close>

text \<open>
  \<^verbatim>\<open>config.RequiredProvider\<close> (declared in \<^verbatim>\<open>pkg/config\<close>): the provider's name and an optional
  source, a \<^verbatim>\<open>*string\<close> that may be nil.
\<close>

record RequiredProvider =
  Name :: string
  Source :: "string option"

text \<open>\<^verbatim>\<open>ParseProviderSource\<close>; the registry's parser \<^verbatim>\<open>registry.ParseProviderName\<close> is its
  first argument. The function is given a provider (a nil \<^verbatim>\<open>requestedProvider\<close> would panic
  at the first field access and is not an input here).\<close>

definition ParseProviderSource :: "(string \<Rightarrow> 'r) \<Rightarrow> RequiredProvider \<Rightarrow> 'r" where
  "ParseProviderSource parseProviderName requestedProvider =
     (let requestedSource =
        (if Source requestedProvider = None \<or> Source requestedProvider = Some [] then
           Name requestedProvider
         else
           (let requestedSource = the (Source requestedProvider)
            in if \<not> Contains requestedSource CHR ''/'' then
                 Join2 requestedSource (Name requestedProvider) CHR ''/''
               else requestedSource))
      in parseProviderName requestedSource)"

text \<open>
  Modelled from the spec: \<^verbatim>\<open>registry.ParseProviderName\<close> (\<^verbatim>\<open>pkg/plugin/registry\<close>) is not part of
  the sources. The specification has it split the string on the separator and check that
  both halves are non-empty identifiers of lowercase letters, digits and hyphens; a bare
  name belongs to a default organization; a string with more than one separator, or with
  an empty half or a disallowed character, fails with \<open>InvalidProviderReference\<close>. The
  default organization is an argument.
\<close>

definition identChar :: "char \<Rightarrow> bool" where
  "identChar c = (97 \<le> byte c \<and> byte c \<le> 122 \<or> isDigit c \<or> c = CHR ''-'')"

definition isIdent :: "string \<Rightarrow> bool" where
  "isIdent s = (s \<noteq> [] \<and> list_all identChar s)"

text \<open>
  Modelled from the spec: \<^verbatim>\<open>registry.ParseProviderName\<close> is not part of the sources. One piece
  is a bare name under the default organization, two pieces are organization and name, and
  anything else, or a piece that is not an identifier, is an invalid reference.
\<close>

definition ParseProviderName :: "string \<Rightarrow> string \<Rightarrow> error + string \<times> string" where
  "ParseProviderName defaultOrg name =
     (case Split CHR ''/'' name of
        [n] \<Rightarrow> if isIdent n then Inr (defaultOrg, n) else Inl (InvalidProviderReference name)
      | [org, n] \<Rightarrow>
          if isIdent org \<and> isIdent n then Inr (org, n) else Inl (InvalidProviderReference name)
      | _ \<Rightarrow> Inl (InvalidProviderReference name))"

section \<open>Vocabulary of the properties\<close>

text \<open>
  A byte is \<open>plain\<close> when no white-space rune starts with it: it is not ASCII white space
  and not one of the lead bytes C2, E1, E2, E3.
\<close>

definition plain :: "char \<Rightarrow> bool" where
  "plain c =
     (\<not> asciiSpace c \<and> byte c \<noteq> 0xC2 \<and> byte c \<noteq> 0xE1 \<and> byte c \<noteq> 0xE2 \<and> byte c \<noteq> 0xE3)"

text \<open>
  The numeric tuple ordering in the specification's words: component \<open>k\<close> of a version is
  its \<open>k\<close>-th number, and zero when the version is shorter; \<open>a\<close> is below \<open>b\<close> when, at the
  first component where they differ, \<open>a\<close> has the smaller number.
\<close>

definition component :: "version \<Rightarrow> nat \<Rightarrow> nat" where
  "component v k = (if k < length v then v ! k else 0)"

definition tupleLess :: "version \<Rightarrow> version \<Rightarrow> bool" where
  "tupleLess a b =
     (\<exists>i. component a i < component b i \<and> (\<forall>j < i. component a j = component b j))"

text \<open>The context a recorded call was made under, and the calls that belong to the probe.\<close>

definition callContext :: "call \<Rightarrow> context option" where
  "callContext c =
     (case c of
        CallConnect x _ \<Rightarrow> Some x
      | CallPing x \<Rightarrow> Some x
      | CallCancel x \<Rightarrow> Some x
      | CallGet x _ \<Rightarrow> Some x
      | CallAcquire x \<Rightarrow> Some x
      | CallRelease \<Rightarrow> None)"

definition isProbe :: "call \<Rightarrow> bool" where
  "isProbe c = (case c of CallPing _ \<Rightarrow> True | CallCancel _ \<Rightarrow> True | _ \<Rightarrow> False)"

text \<open>
  Fake stores for the concrete runs: a querier with fixed answers, a pool with a fixed ping
  result whose leased connection answers as the pool does, and a \<^verbatim>\<open>Connect\<close> with a fixed
  result.
\<close>

definition fakeQuerier ::
  "error + string \<Rightarrow> error + DatabaseInfo \<Rightarrow> error + string \<Rightarrow> Querier" where
  "fakeQuerier ident status banner =
     \<lparr>SystemIdentifier = (\<lambda>_. ident), ServerStatus = (\<lambda>_. status),
      VersionBanner = (\<lambda>_. banner)\<rparr>"

definition fakeStore ::
  "error option \<Rightarrow> error + string \<Rightarrow> error + DatabaseInfo \<Rightarrow> error + string \<Rightarrow> Pool" where
  "fakeStore ping ident status banner =
     \<lparr>Ping = (\<lambda>_. ping), Queries = fakeQuerier ident status banner,
      Acquire = (\<lambda>_. Inr (fakeQuerier ident status banner))\<rparr>"

definition fakeConnect :: "error + Pool \<Rightarrow> context \<Rightarrow> string \<Rightarrow> error + Pool" where
  "fakeConnect r ctx d = r"

section \<open>Splitting into fields\<close>

lemma spaceWidth_plain: "plain c \<Longrightarrow> spaceWidth (c # cs) = 0"
  by (simp add: plain_def)

lemma fieldsFrom_plain:
  "list_all plain t \<Longrightarrow> fieldsFrom 0 cur (t @ rest) = fieldsFrom 0 (rev t @ cur) rest"
proof (induction t arbitrary: cur)
  case Nil
  then show ?case by simp
next
  case (Cons c t)
  from Cons.prems have "plain c" and t: "list_all plain t" by simp_all
  then have "spaceWidth (c # t @ rest) = 0" by (simp only: spaceWidth_plain)
  then have "fieldsFrom 0 cur ((c # t) @ rest) = fieldsFrom 0 (c # cur) (t @ rest)"
    by (simp del: spaceWidth.simps)
  also have "\<dots> = fieldsFrom 0 (rev t @ c # cur) rest" using Cons.IH [OF t] .
  finally show ?case by simp
qed

lemma fieldsFrom_asciiSpace:
  "asciiSpace s \<Longrightarrow> fieldsFrom 0 cur (s # rest) = flush cur @ fieldsFrom 0 [] rest"
  by simp

lemma Fields_skip_space: "asciiSpace s \<Longrightarrow> Fields (s # rest) = Fields rest"
  by (simp add: Fields_def flush_def)

lemma Fields_token:
  assumes "list_all plain t" and "t \<noteq> []" and "asciiSpace s"
  shows "Fields (t @ s # rest) = t # Fields rest"
proof -
  have "Fields (t @ s # rest) = fieldsFrom 0 (rev t) (s # rest)"
    using fieldsFrom_plain [OF assms(1), of "[]" "s # rest"] by (simp add: Fields_def)
  also have "\<dots> = flush (rev t) @ fieldsFrom 0 [] rest"
    using assms(3) by (rule fieldsFrom_asciiSpace)
  finally show ?thesis using assms(2) by (simp add: flush_def Fields_def)
qed

lemma Fields_last_token:
  assumes "list_all plain t" and "t \<noteq> []"
  shows "Fields t = [t]"
  using fieldsFrom_plain [OF assms(1), of "[]" "[]"] assms(2)
  by (simp add: Fields_def flush_def)

lemma fieldsFrom_nonempty: "\<forall>f \<in> set (fieldsFrom k cur s). f \<noteq> []"
  by (induction k cur s rule: fieldsFrom.induct) (auto simp: flush_def split: nat.splits)

lemma Fields_nonempty: "f \<in> set (Fields s) \<Longrightarrow> f \<noteq> []"
  using fieldsFrom_nonempty [of 0 "[]" s] by (simp add: Fields_def)

section \<open>The version ordering\<close>

lemma compare_refl: "compare v v = Equal"
  by (induction v) auto

lemma MinPostgresVersion_eq: "MinPostgresVersion = [10, 0]"
  by (simp add: MinPostgresVersion_def NewVersion_def isNumber_def isDigit_def byte_def
        parseNat_def)

lemma component_tl: "component (tl v) k = component v (Suc k)"
  by (cases v) (simp_all add: component_def)

lemma tupleLess_step:
  "tupleLess a b =
     (component a 0 < component b 0
      \<or> component a 0 = component b 0 \<and> tupleLess (tl a) (tl b))"
proof
  assume "tupleLess a b"
  then obtain i where i: "component a i < component b i"
      "\<forall>j < i. component a j = component b j"
    unfolding tupleLess_def by blast
  show "component a 0 < component b 0
        \<or> component a 0 = component b 0 \<and> tupleLess (tl a) (tl b)"
  proof (cases i)
    case 0
    with i show ?thesis by simp
  next
    case (Suc k)
    with i(2) have "component a 0 = component b 0" by simp
    moreover have "component (tl a) k < component (tl b) k"
      using i(1) Suc by (simp add: component_tl)
    moreover have "\<forall>j < k. component (tl a) j = component (tl b) j"
      using i(2) Suc by (simp add: component_tl)
    ultimately show ?thesis unfolding tupleLess_def by blast
  qed
next
  assume "component a 0 < component b 0
          \<or> component a 0 = component b 0 \<and> tupleLess (tl a) (tl b)"
  then show "tupleLess a b"
  proof
    assume "component a 0 < component b 0"
    then have "component a 0 < component b 0 \<and> (\<forall>j < 0. component a j = component b j)"
      by simp
    then show ?thesis unfolding tupleLess_def by blast
  next
    assume a: "component a 0 = component b 0 \<and> tupleLess (tl a) (tl b)"
    then obtain i where i: "component (tl a) i < component (tl b) i"
        "\<forall>j < i. component (tl a) j = component (tl b) j"
      unfolding tupleLess_def by blast
    have "component a (Suc i) < component b (Suc i)"
      using i(1) by (simp add: component_tl)
    moreover have "\<forall>j < Suc i. component a j = component b j"
    proof (intro allI impI)
      fix j assume "j < Suc i"
      then show "component a j = component b j"
        using a i(2) by (cases j) (simp_all add: component_tl)
    qed
    ultimately show ?thesis unfolding tupleLess_def by blast
  qed
qed

lemma tupleLess_Nil_Nil: "\<not> tupleLess [] []"
  by (simp add: tupleLess_def component_def)

lemma compare_Less_iff: "compare a b = Less \<longleftrightarrow> tupleLess a b"
proof (induction a b rule: compare.induct)
  case 1
  show ?case by (simp add: tupleLess_Nil_Nil)
next
  case (2 y ys)
  show ?case
    using 2 tupleLess_step [of "[]" "y # ys"] by (auto simp: component_def)
next
  case (3 x xs)
  show ?case
    using 3 tupleLess_step [of "x # xs" "[]"] by (auto simp: component_def)
next
  case (4 x xs y ys)
  show ?case
    using 4 tupleLess_step [of "x # xs" "y # ys"] by (auto simp: component_def)
qed

section \<open>The paths of a validation pass\<close>

lemma Validate_connect_failed:
  assumes "Connect ctx (dsn e) = Inl err"
  shows "Validate Connect ctx e = (e, (False, Some err), [CallConnect ctx (dsn e)])"
  using assms by (simp add: Validate_def)

lemma Validate_ping_failed:
  assumes "Connect ctx (dsn e) = Inr pool"
    and "Ping pool (WithTimeout ctx (Second * 10)) = Some err"
  shows "Validate Connect ctx e =
           (e, (False, Some err),
            [CallConnect ctx (dsn e), CallPing (WithTimeout ctx (Second * 10)),
             CallCancel (WithTimeout ctx (Second * 10))])"
  using assms by (simp add: Validate_def ValidatePostgresConnection_def Let_def)

lemma Validate_reachable:
  assumes "Connect ctx (dsn e) = Inr pool"
    and "Ping pool (WithTimeout ctx (Second * 10)) = None"
  shows "Validate Connect ctx e =
           (e\<lparr>dbId := fst (fst (GetDatabaseId ctx (Queries pool))),
              info := fst (GetDatabaseInfo ctx (Queries pool))\<rparr>,
            (True, case fst (ValidatePostgresVersion ctx pool) of
                     Some err \<Rightarrow> Some err
                   | None \<Rightarrow> snd (fst (GetDatabaseId ctx (Queries pool)))),
            [CallConnect ctx (dsn e), CallPing (WithTimeout ctx (Second * 10)),
             CallCancel (WithTimeout ctx (Second * 10))]
            @ snd (GetDatabaseId ctx (Queries pool))
            @ snd (GetDatabaseInfo ctx (Queries pool))
            @ snd (ValidatePostgresVersion ctx pool))"
  using assms
  by (simp add: Validate_def ValidatePostgresConnection_def Let_def
        split: prod.splits option.splits)

lemma GetDatabaseId_calls: "snd (GetDatabaseId ctx q) = [CallGet ctx SystemIdentifierQuery]"
  by (simp add: GetDatabaseId_def split: sum.splits)

lemma GetDatabaseInfo_calls: "snd (GetDatabaseInfo ctx q) = [CallGet ctx ServerStatusQuery]"
  by (simp add: GetDatabaseInfo_def split: sum.splits)

lemma runningPostgresVersion_calls:
  "snd (runningPostgresVersion ctx q) = [CallGet ctx VersionBannerQuery]"
  by (simp add: runningPostgresVersion_def Let_def split: sum.splits)

lemma doValidatePostgresVersion_calls:
  "snd (doValidatePostgresVersion ctx q want) = [CallGet ctx VersionBannerQuery]"
  using runningPostgresVersion_calls [of ctx q]
  by (auto simp: doValidatePostgresVersion_def split: prod.splits sum.splits)

lemma ValidatePostgresVersion_calls:
  "snd (ValidatePostgresVersion ctx pool) =
     (case Acquire pool ctx of
        Inl err \<Rightarrow> [CallAcquire ctx]
      | Inr conn \<Rightarrow> [CallAcquire ctx, CallGet ctx VersionBannerQuery, CallRelease])"
proof (cases "Acquire pool ctx")
  case (Inl err)
  then show ?thesis by (simp add: ValidatePostgresVersion_def)
next
  case (Inr conn)
  obtain r l where rl: "doValidatePostgresVersion ctx conn MinPostgresVersion = (r, l)"
    by (cases "doValidatePostgresVersion ctx conn MinPostgresVersion")
  then have "l = [CallGet ctx VersionBannerQuery]"
    using doValidatePostgresVersion_calls [of ctx conn MinPostgresVersion] by simp
  with Inr rl show ?thesis by (simp add: ValidatePostgresVersion_def)
qed

lemma GetDatabaseId_error:
  "SystemIdentifier q ctx = Inl err \<Longrightarrow> fst (GetDatabaseId ctx q) = ([], Some err)"
  by (simp add: GetDatabaseId_def)

lemma ValidatePostgresVersion_acquired:
  "Acquire pool ctx = Inr conn \<Longrightarrow>
     fst (ValidatePostgresVersion ctx pool)
       = fst (doValidatePostgresVersion ctx conn MinPostgresVersion)"
  by (simp add: ValidatePostgresVersion_def split: prod.splits)

lemmas fake_defs = fakeConnect_def fakeStore_def fakeQuerier_def

lemmas run_defs =
  fake_defs New_def zeroInfo_def
  Validate_def ValidatePostgresConnection_def GetDatabaseId_def GetDatabaseInfo_def
  ValidatePostgresVersion_def doValidatePostgresVersion_def runningPostgresVersion_def
  Fields_def flush_def asciiSpace_def byte_def
  NewVersion_def isNumber_def isDigit_def parseNat_def
  LessThan_def MinPostgresVersion_eq Identifier_def Second_def Let_def

lemmas provider_defs =
  ParseProviderSource_def ParseProviderName_def Contains_def Join2_def
  isIdent_def identChar_def isDigit_def byte_def Let_def

section \<open>Validation passes\<close>

text \<open>
  C1, as the specification states it: when the ping succeeds, the identity query errors and
  the version check passes, the pass reports connected=true, \<open>Identifier\<close> reports no
  identity, and the identity-query error is not handed to the caller. The last part does not
  hold: on a store whose identity query fails with "permission denied" and whose version is
  13.4, \<open>Validate\<close> returns that very error next to \<open>True\<close>.
\<close>

theorem identity_error_not_raised_counterexample:
  "fst (snd (Validate
      (fakeConnect (Inr (fakeStore None (Inl (DriverError ''permission denied''))
                           (Inr zeroInfo) (Inr ''PostgreSQL 13.4 on x86_64''))))
      Background (New ''postgres://localhost'')))
   = (True, Some (DriverError ''permission denied''))"
  by (simp add: run_defs)

text \<open>
  C1, amended: when the ping succeeds, the identity query errors and the version check
  passes, the pass reports connected=true, \<open>Identifier\<close> reports the empty identifier with
  present=false, and the pass returns the identity-query error as its error value, next to
  connected=true.
\<close>

theorem validate_identity_error:
  assumes "Connect ctx (dsn e) = Inr pool"
    and "Ping pool (WithTimeout ctx (Second * 10)) = None"
    and "SystemIdentifier (Queries pool) ctx = Inl err"
    and "fst (ValidatePostgresVersion ctx pool) = None"
  shows "fst (snd (Validate Connect ctx e)) = (True, Some err)
         \<and> Identifier (fst (Validate Connect ctx e)) = ([], False)"
  using assms Validate_reachable [of Connect ctx e pool]
  by (simp add: GetDatabaseId_error Identifier_def)

theorem validate_identity_error_witness:
  "fst (snd (Validate
      (fakeConnect (Inr (fakeStore None (Inl (DriverError ''permission denied''))
                           (Inr zeroInfo) (Inr ''PostgreSQL 13.4''))))
      Background (New ''postgres://localhost'')))
   = (True, Some (DriverError ''permission denied''))
   \<and> Identifier (fst (Validate
      (fakeConnect (Inr (fakeStore None (Inl (DriverError ''permission denied''))
                           (Inr zeroInfo) (Inr ''PostgreSQL 13.4''))))
      Background (New ''postgres://localhost''))) = ([], False)"
proof -
  let ?pool = "fakeStore None (Inl (DriverError ''permission denied''))
                 (Inr zeroInfo) (Inr ''PostgreSQL 13.4'')"
  have 1: "fakeConnect (Inr ?pool) Background (dsn (New ''postgres://localhost'')) = Inr ?pool"
    by (simp add: fakeConnect_def)
  have 2: "Ping ?pool (WithTimeout Background (Second * 10)) = None"
    by (simp add: fakeStore_def)
  have 3: "SystemIdentifier (Queries ?pool) Background = Inl (DriverError ''permission denied'')"
    by (simp add: fakeStore_def fakeQuerier_def)
  have 4: "fst (ValidatePostgresVersion Background ?pool) = None"
    by (simp add: run_defs)
  show ?thesis
    using validate_identity_error [of "fakeConnect (Inr ?pool)" Background
        "New ''postgres://localhost''" ?pool "DriverError ''permission denied''"] 1 2 3 4
    by blast
qed

text \<open>
  C2: when the store cannot be reached (opening the pool fails, or the ping fails), the pass
  returns connected=false with the error and stops there: no identity, status or version
  query is sent and no connection is leased; the executor is left as it was, so the cached
  identifier and status of an executor that had none are still empty and zero.
\<close>

theorem validate_unreachable:
  assumes "Connect ctx (dsn e) = Inl err
           \<or> Connect ctx (dsn e) = Inr pool
             \<and> Ping pool (WithTimeout ctx (Second * 10)) = Some err"
  shows "fst (snd (Validate Connect ctx e)) = (False, Some err)
         \<and> (\<forall>c q. CallGet c q \<notin> set (snd (snd (Validate Connect ctx e))))
         \<and> (\<forall>c. CallAcquire c \<notin> set (snd (snd (Validate Connect ctx e))))
         \<and> fst (Validate Connect ctx e) = e
         \<and> (dbId e = [] \<and> info e = zeroInfo \<longrightarrow>
              dbId (fst (Validate Connect ctx e)) = []
              \<and> info (fst (Validate Connect ctx e)) = zeroInfo)"
  using assms
proof
  assume "Connect ctx (dsn e) = Inl err"
  then show ?thesis by (simp add: Validate_connect_failed)
next
  assume "Connect ctx (dsn e) = Inr pool
          \<and> Ping pool (WithTimeout ctx (Second * 10)) = Some err"
  then show ?thesis using Validate_ping_failed [of Connect ctx e pool err] by simp
qed

theorem validate_unreachable_witness:
  "fst (snd (Validate
      (fakeConnect (Inr (fakeStore (Some (DriverError ''connection refused'')) (Inr ''1'')
                           (Inr zeroInfo) (Inr ''PostgreSQL 13.4''))))
      Background (New ''postgres://localhost'')))
   = (False, Some (DriverError ''connection refused''))
   \<and> dbId (fst (Validate
      (fakeConnect (Inr (fakeStore (Some (DriverError ''connection refused'')) (Inr ''1'')
                           (Inr zeroInfo) (Inr ''PostgreSQL 13.4''))))
      Background (New ''postgres://localhost''))) = []
   \<and> info (fst (Validate
      (fakeConnect (Inr (fakeStore (Some (DriverError ''connection refused'')) (Inr ''1'')
                           (Inr zeroInfo) (Inr ''PostgreSQL 13.4''))))
      Background (New ''postgres://localhost''))) = zeroInfo"
proof -
  let ?pool = "fakeStore (Some (DriverError ''connection refused'')) (Inr ''1'')
                 (Inr zeroInfo) (Inr ''PostgreSQL 13.4'')"
  have 1: "fakeConnect (Inr ?pool) Background (dsn (New ''postgres://localhost'')) = Inr ?pool
           \<and> Ping ?pool (WithTimeout Background (Second * 10))
               = Some (DriverError ''connection refused'')"
    by (simp add: fakeConnect_def fakeStore_def)
  have 2: "dbId (New ''postgres://localhost'') = []
           \<and> info (New ''postgres://localhost'') = zeroInfo"
    by (simp add: New_def)
  show ?thesis
    using validate_unreachable [of "fakeConnect (Inr ?pool)" Background
        "New ''postgres://localhost''" "DriverError ''connection refused''" ?pool] 1 2
    by blast
qed

text \<open>
  C3: when the store is reachable and its running version is below the minimum, the pass
  reports connected=true together with the unsupported-version error (an unreachable store
  gives connected=false). The identifier and the status have been stored by then: the
  executor holds the identifier the identity query returned (the empty string when that
  query failed) and the status the status query returned (the sentinel when that query
  failed), and both queries were sent before the connection for the version check was
  leased.
\<close>

theorem validate_unsupported_version:
  assumes "Connect ctx (dsn e) = Inr pool"
    and "Ping pool (WithTimeout ctx (Second * 10)) = None"
    and "Acquire pool ctx = Inr conn"
    and "fst (runningPostgresVersion ctx conn) = Inr got"
    and "LessThan got MinPostgresVersion"
  shows "fst (snd (Validate Connect ctx e))
           = (True, Some (UnsupportedVersion got MinPostgresVersion))
         \<and> dbId (fst (Validate Connect ctx e)) = fst (fst (GetDatabaseId ctx (Queries pool)))
         \<and> info (fst (Validate Connect ctx e)) = fst (GetDatabaseInfo ctx (Queries pool))
         \<and> dbId (fst (Validate Connect ctx e))
             = (case SystemIdentifier (Queries pool) ctx of
                  Inl ierr \<Rightarrow> []
                | Inr ident \<Rightarrow> ident)
         \<and> info (fst (Validate Connect ctx e))
             = (case ServerStatus (Queries pool) ctx of
                  Inl serr \<Rightarrow> \<lparr>Version = ''unknown'', Uptime = 0, FullVersion = ''unknown''\<rparr>
                | Inr status \<Rightarrow> status)
         \<and> dsn (fst (Validate Connect ctx e)) = dsn e
         \<and> snd (snd (Validate Connect ctx e)) =
             [CallConnect ctx (dsn e), CallPing (WithTimeout ctx (Second * 10)),
              CallCancel (WithTimeout ctx (Second * 10)),
              CallGet ctx SystemIdentifierQuery, CallGet ctx ServerStatusQuery,
              CallAcquire ctx, CallGet ctx VersionBannerQuery, CallRelease]"
proof -
  have "fst (doValidatePostgresVersion ctx conn MinPostgresVersion)
          = Some (UnsupportedVersion got MinPostgresVersion)"
    using assms(4,5) by (auto simp: doValidatePostgresVersion_def split: prod.splits sum.splits)
  then have v: "fst (ValidatePostgresVersion ctx pool)
               = Some (UnsupportedVersion got MinPostgresVersion)"
    using assms(3) by (simp add: ValidatePostgresVersion_acquired)
  have i: "fst (fst (GetDatabaseId ctx (Queries pool)))
             = (case SystemIdentifier (Queries pool) ctx of
                  Inl ierr \<Rightarrow> []
                | Inr ident \<Rightarrow> ident)"
    by (simp add: GetDatabaseId_def split: sum.splits)
  have s: "fst (GetDatabaseInfo ctx (Queries pool))
             = (case ServerStatus (Queries pool) ctx of
                  Inl serr \<Rightarrow> \<lparr>Version = ''unknown'', Uptime = 0, FullVersion = ''unknown''\<rparr>
                | Inr status \<Rightarrow> status)"
    by (simp add: GetDatabaseInfo_def split: sum.splits)
  have r: "Validate Connect ctx e =
           (e\<lparr>dbId := fst (fst (GetDatabaseId ctx (Queries pool))),
              info := fst (GetDatabaseInfo ctx (Queries pool))\<rparr>,
            (True, case fst (ValidatePostgresVersion ctx pool) of
                     Some err \<Rightarrow> Some err
                   | None \<Rightarrow> snd (fst (GetDatabaseId ctx (Queries pool)))),
            [CallConnect ctx (dsn e), CallPing (WithTimeout ctx (Second * 10)),
             CallCancel (WithTimeout ctx (Second * 10))]
            @ snd (GetDatabaseId ctx (Queries pool))
            @ snd (GetDatabaseInfo ctx (Queries pool))
            @ snd (ValidatePostgresVersion ctx pool))"
    using assms(1,2) by (rule Validate_reachable)
  show ?thesis
    unfolding r using v i s assms(3)
    by (simp add: GetDatabaseId_calls GetDatabaseInfo_calls ValidatePostgresVersion_calls)
qed

theorem validate_unsupported_version_witness:
  "fst (snd (Validate
      (fakeConnect (Inr (fakeStore None (Inr ''7000000000000000001'')
         (Inr \<lparr>Version = ''9.6'', Uptime = 3600000000000,
               FullVersion = ''PostgreSQL 9.6 on x86_64''\<rparr>)
         (Inr ''PostgreSQL 9.6 on x86_64''))))
      Background (New ''postgres://localhost'')))
   = (True, Some (UnsupportedVersion [9, 6] [10, 0]))
   \<and> dbId (fst (Validate
      (fakeConnect (Inr (fakeStore None (Inr ''7000000000000000001'')
         (Inr \<lparr>Version = ''9.6'', Uptime = 3600000000000,
               FullVersion = ''PostgreSQL 9.6 on x86_64''\<rparr>)
         (Inr ''PostgreSQL 9.6 on x86_64''))))
      Background (New ''postgres://localhost''))) = ''7000000000000000001''
   \<and> info (fst (Validate
      (fakeConnect (Inr (fakeStore None (Inr ''7000000000000000001'')
         (Inr \<lparr>Version = ''9.6'', Uptime = 3600000000000,
               FullVersion = ''PostgreSQL 9.6 on x86_64''\<rparr>)
         (Inr ''PostgreSQL 9.6 on x86_64''))))
      Background (New ''postgres://localhost'')))
     = \<lparr>Version = ''9.6'', Uptime = 3600000000000,
        FullVersion = ''PostgreSQL 9.6 on x86_64''\<rparr>"
proof -
  let ?st = "\<lparr>Version = ''9.6'', Uptime = 3600000000000,
               FullVersion = ''PostgreSQL 9.6 on x86_64''\<rparr>"
  let ?q = "fakeQuerier (Inr ''7000000000000000001'') (Inr ?st)
              (Inr ''PostgreSQL 9.6 on x86_64'')"
  let ?pool = "fakeStore None (Inr ''7000000000000000001'') (Inr ?st)
                 (Inr ''PostgreSQL 9.6 on x86_64'')"
  have 1: "fakeConnect (Inr ?pool) Background (dsn (New ''postgres://localhost'')) = Inr ?pool"
    by (simp add: fakeConnect_def)
  have 2: "Ping ?pool (WithTimeout Background (Second * 10)) = None"
    by (simp add: fakeStore_def)
  have 3: "Acquire ?pool Background = Inr ?q"
    by (simp add: fakeStore_def)
  have 4: "fst (runningPostgresVersion Background ?q) = Inr [9, 6]"
    by (simp add: run_defs)
  have 5: "LessThan [9, 6] MinPostgresVersion"
    by (simp add: LessThan_def MinPostgresVersion_eq)
  have 6: "SystemIdentifier (Queries ?pool) Background = Inr ''7000000000000000001''"
    by (simp add: fakeStore_def fakeQuerier_def)
  have 7: "ServerStatus (Queries ?pool) Background = Inr ?st"
    by (simp add: fakeStore_def fakeQuerier_def)
  note t = validate_unsupported_version [of "fakeConnect (Inr ?pool)" Background
      "New ''postgres://localhost''" ?pool ?q "[9, 6]", OF 1 2 3 4 5]
  have a: "fst (snd (Validate (fakeConnect (Inr ?pool)) Background (New ''postgres://localhost'')))
             = (True, Some (UnsupportedVersion [9, 6] MinPostgresVersion))"
    using t by blast
  have b: "dbId (fst (Validate (fakeConnect (Inr ?pool)) Background
                        (New ''postgres://localhost'')))
             = (case SystemIdentifier (Queries ?pool) Background of
                  Inl ierr \<Rightarrow> []
                | Inr ident \<Rightarrow> ident)"
    using t by blast
  have c: "info (fst (Validate (fakeConnect (Inr ?pool)) Background
                        (New ''postgres://localhost'')))
             = (case ServerStatus (Queries ?pool) Background of
                  Inl serr \<Rightarrow> \<lparr>Version = ''unknown'', Uptime = 0, FullVersion = ''unknown''\<rparr>
                | Inr status \<Rightarrow> status)"
    using t by blast
  show ?thesis
    unfolding a b c 6 7 by (simp add: MinPostgresVersion_eq)
qed

section \<open>Reading the running version\<close>

text \<open>
  C4, as the specification states it: a banner with fewer than two white-space-delimited
  fields is rejected, and otherwise the leading field of the banner is parsed as the
  version. The second half does not hold: for the banner "PostgreSQL 9.6" the result is
  version 9.6, which is not what parsing the leading field "PostgreSQL" gives.
\<close>

theorem leading_token_counterexample:
  "fst (runningPostgresVersion Background
          (fakeQuerier (Inr ''1'') (Inr zeroInfo) (Inr ''PostgreSQL 9.6''))) = Inr [9, 6]
   \<and> fst (runningPostgresVersion Background
          (fakeQuerier (Inr ''1'') (Inr zeroInfo) (Inr ''PostgreSQL 9.6'')))
       \<noteq> NewVersion (hd (Fields ''PostgreSQL 9.6''))"
  by (simp add: run_defs)

text \<open>
  C4, amended: for every banner the version query returns, if the banner has fewer than two
  white-space-delimited fields, parsing fails with \<open>UnparsableVersionOutput\<close>; otherwise
  the second field of the banner is parsed as the version, and the first field and
  everything after the second are ignored. In particular, for a banner made of a first
  token, a white-space byte, a second token and then nothing or white space and anything,
  the result is the parse of the second token.
\<close>

theorem running_version_second_field:
  assumes "VersionBanner q ctx = Inr banner"
  shows "(length (Fields banner) < 2 \<longrightarrow>
            fst (runningPostgresVersion ctx q) = Inl (UnparsableVersionOutput banner))
         \<and> (2 \<le> length (Fields banner) \<longrightarrow>
            fst (runningPostgresVersion ctx q) = NewVersion (Fields banner ! 1))
         \<and> (\<forall>t1 s1 t2 s2 rest.
              list_all plain t1 \<and> t1 \<noteq> [] \<and> asciiSpace s1 \<and> list_all plain t2 \<and> t2 \<noteq> []
              \<and> asciiSpace s2 \<and> (banner = t1 @ s1 # t2 \<or> banner = t1 @ s1 # t2 @ s2 # rest)
              \<longrightarrow> fst (runningPostgresVersion ctx q) = NewVersion t2)"
proof (intro conjI allI impI)
  assume "length (Fields banner) < 2"
  then show "fst (runningPostgresVersion ctx q) = Inl (UnparsableVersionOutput banner)"
    using assms by (simp add: runningPostgresVersion_def)
next
  assume "2 \<le> length (Fields banner)"
  then show "fst (runningPostgresVersion ctx q) = NewVersion (Fields banner ! 1)"
    using assms by (simp add: runningPostgresVersion_def)
next
  fix t1 s1 t2 s2 rest
  assume a: "list_all plain t1 \<and> t1 \<noteq> [] \<and> asciiSpace s1 \<and> list_all plain t2 \<and> t2 \<noteq> []
              \<and> asciiSpace s2 \<and> (banner = t1 @ s1 # t2 \<or> banner = t1 @ s1 # t2 @ s2 # rest)"
  then have "Fields banner = [t1, t2] \<or> Fields banner = t1 # t2 # Fields rest"
    by (auto simp: Fields_token Fields_last_token)
  then have "2 \<le> length (Fields banner) \<and> Fields banner ! 1 = t2" by auto
  then show "fst (runningPostgresVersion ctx q) = NewVersion t2"
    using assms by (simp add: runningPostgresVersion_def)
qed

theorem running_version_second_field_witness:
  "fst (runningPostgresVersion Background
          (fakeQuerier (Inr ''1'') (Inr zeroInfo) (Inr ''PostgreSQL 13.4 on x86_64'')))
     = Inr [13, 4]
   \<and> fst (runningPostgresVersion Background
          (fakeQuerier (Inr ''1'') (Inr zeroInfo) (Inr ''PostgreSQL'')))
     = Inl (UnparsableVersionOutput ''PostgreSQL'')"
proof -
  let ?q = "fakeQuerier (Inr ''1'') (Inr zeroInfo) (Inr ''PostgreSQL 13.4 on x86_64'')"
  let ?r = "fakeQuerier (Inr ''1'') (Inr zeroInfo) (Inr ''PostgreSQL'')"
  have 1: "VersionBanner ?q Background
             = Inr (''PostgreSQL'' @ CHR '' '' # ''13.4'' @ CHR '' '' # ''on x86_64'')"
    by (simp add: fakeQuerier_def)
  have 2: "list_all plain ''PostgreSQL'' \<and> ''PostgreSQL'' \<noteq> [] \<and> asciiSpace CHR '' ''
           \<and> list_all plain ''13.4'' \<and> ''13.4'' \<noteq> [] \<and> asciiSpace CHR '' ''"
    by (simp add: plain_def asciiSpace_def byte_def)
  have 3: "NewVersion ''13.4'' = Inr [13, 4]"
    by (simp add: run_defs)
  have 4: "VersionBanner ?r Background = Inr ''PostgreSQL''"
    by (simp add: fakeQuerier_def)
  have 5: "length (Fields ''PostgreSQL'') < 2"
    by (simp add: run_defs)
  have "fst (runningPostgresVersion Background ?q) = NewVersion ''13.4''"
    using running_version_second_field [OF 1] 2 by blast
  moreover have "fst (runningPostgresVersion Background ?r)
                   = Inl (UnparsableVersionOutput ''PostgreSQL'')"
    using running_version_second_field [OF 4] 5 by blast
  ultimately show ?thesis using 3 by simp
qed

section \<open>Resolving provider sources\<close>

text \<open>
  C5: whatever the registry's parser is, \<open>ParseProviderSource\<close> hands it the fallback name
  when the requested source is nil or empty, the requested source followed by "/" and the
  fallback name when the source is non-empty and has no "/", and the requested source
  unchanged otherwise. With the parser of the specification: a nil source and name "aws"
  give the default organization and "aws"; "myorg" gives ("myorg", "aws"); "myorg/aws2"
  gives ("myorg", "aws2"); "a/b/c" fails with \<open>InvalidProviderReference\<close>.
\<close>

theorem provider_source_resolution:
  "ParseProviderSource P \<lparr>Name = name, Source = src\<rparr> =
     P (case src of
          None \<Rightarrow> name
        | Some s \<Rightarrow> if s = [] then name
                    else if CHR ''/'' \<notin> set s then s @ ''/'' @ name
                    else s)
   \<and> ParseProviderSource (ParseProviderName org) \<lparr>Name = ''aws'', Source = None\<rparr>
       = Inr (org, ''aws'')
   \<and> ParseProviderSource (ParseProviderName org) \<lparr>Name = ''aws'', Source = Some ''myorg''\<rparr>
       = Inr (''myorg'', ''aws'')
   \<and> ParseProviderSource (ParseProviderName org)
         \<lparr>Name = ''aws'', Source = Some ''myorg/aws2''\<rparr>
       = Inr (''myorg'', ''aws2'')
   \<and> ParseProviderSource (ParseProviderName org) \<lparr>Name = ''aws'', Source = Some ''a/b/c''\<rparr>
       = Inl (InvalidProviderReference ''a/b/c'')"
proof (intro conjI)
  show "ParseProviderSource P \<lparr>Name = name, Source = src\<rparr> =
     P (case src of
          None \<Rightarrow> name
        | Some s \<Rightarrow> if s = [] then name
                    else if CHR ''/'' \<notin> set s then s @ ''/'' @ name
                    else s)"
    by (cases src) (simp_all add: ParseProviderSource_def Contains_def Join2_def Let_def)
qed (simp_all add: provider_defs)

theorem provider_source_resolution_witness:
  "ParseProviderSource (ParseProviderName ''cloudquery'')
       \<lparr>Name = ''aws'', Source = Some ''myorg''\<rparr>
     = ParseProviderName ''cloudquery'' ''myorg/aws''
   \<and> ParseProviderSource (ParseProviderName ''cloudquery'') \<lparr>Name = ''aws'', Source = None\<rparr>
     = Inr (''cloudquery'', ''aws'')"
  using provider_source_resolution [of "ParseProviderName ''cloudquery''" "''aws''"
      "Some ''myorg''" "''cloudquery''"]
  by simp

section \<open>Status\<close>

text \<open>
  C6: when the status query errors, \<open>GetDatabaseInfo\<close> returns exactly the sentinel with
  version "unknown", uptime 0 and full version "unknown". It has no error to return, and
  inside a validation pass the sentinel is stored while the outcome of the pass is the one
  the version check and the identity query decide: the status error reaches no caller.
\<close>

theorem status_sentinel:
  assumes "ServerStatus q ctx = Inl err"
  shows "fst (GetDatabaseInfo ctx q)
           = \<lparr>Version = ''unknown'', Uptime = 0, FullVersion = ''unknown''\<rparr>
         \<and> (Connect ctx (dsn e) = Inr pool \<and> Ping pool (WithTimeout ctx (Second * 10)) = None
              \<and> Queries pool = q \<longrightarrow>
            info (fst (Validate Connect ctx e))
              = \<lparr>Version = ''unknown'', Uptime = 0, FullVersion = ''unknown''\<rparr>
            \<and> fst (snd (Validate Connect ctx e))
              = (True, case fst (ValidatePostgresVersion ctx pool) of
                         Some verr \<Rightarrow> Some verr
                       | None \<Rightarrow> snd (fst (GetDatabaseId ctx q))))"
proof -
  have s: "fst (GetDatabaseInfo ctx q)
             = \<lparr>Version = ''unknown'', Uptime = 0, FullVersion = ''unknown''\<rparr>"
    using assms by (simp add: GetDatabaseInfo_def)
  show ?thesis
    using s Validate_reachable [of Connect ctx e pool] by auto
qed

theorem status_sentinel_witness:
  "info (fst (Validate
      (fakeConnect (Inr (fakeStore None (Inr ''7000000000000000001'')
                           (Inl (DriverError ''timeout'')) (Inr ''PostgreSQL 13.4''))))
      Background (New ''postgres://localhost'')))
   = \<lparr>Version = ''unknown'', Uptime = 0, FullVersion = ''unknown''\<rparr>
   \<and> fst (snd (Validate
      (fakeConnect (Inr (fakeStore None (Inr ''7000000000000000001'')
                           (Inl (DriverError ''timeout'')) (Inr ''PostgreSQL 13.4''))))
      Background (New ''postgres://localhost''))) = (True, None)"
proof -
  let ?q = "fakeQuerier (Inr ''7000000000000000001'') (Inl (DriverError ''timeout''))
              (Inr ''PostgreSQL 13.4'')"
  let ?pool = "fakeStore None (Inr ''7000000000000000001'') (Inl (DriverError ''timeout''))
                 (Inr ''PostgreSQL 13.4'')"
  have 0: "ServerStatus ?q Background = Inl (DriverError ''timeout'')"
    by (simp add: fakeQuerier_def)
  have 1: "fakeConnect (Inr ?pool) Background (dsn (New ''postgres://localhost'')) = Inr ?pool"
    by (simp add: fakeConnect_def)
  have 2: "Ping ?pool (WithTimeout Background (Second * 10)) = None"
    by (simp add: fakeStore_def)
  have 3: "Queries ?pool = ?q"
    by (simp add: fakeStore_def)
  have 4: "fst (ValidatePostgresVersion Background ?pool) = None"
    by (simp add: run_defs)
  have 5: "snd (fst (GetDatabaseId Background ?q)) = None"
    by (simp add: run_defs)
  show ?thesis
    using status_sentinel [OF 0, of "fakeConnect (Inr ?pool)" "New ''postgres://localhost''"
        ?pool] 1 2 3 4 5
    by simp
qed

section \<open>Comparing versions\<close>

text \<open>
  C7: the comparison is the numeric ordering of dot-delimited tuples (\<open>LessThan\<close> holds
  exactly when, at the first component where the two versions differ, the first has the
  smaller number, a missing trailing component counting as zero), and the check is
  reflexive: every version is at least itself, and when the running version equals the
  wanted one \<open>doValidatePostgresVersion\<close> returns no error.
\<close>

theorem version_order_reflexive:
  "(LessThan a b \<longleftrightarrow> tupleLess a b)
   \<and> isAtLeast v v
   \<and> (fst (runningPostgresVersion ctx q) = Inr v \<longrightarrow>
        fst (doValidatePostgresVersion ctx q v) = None)"
  by (auto simp: LessThan_def compare_Less_iff isAtLeast_def compare_refl
        doValidatePostgresVersion_def split: prod.splits sum.splits)

theorem version_order_reflexive_witness:
  "fst (doValidatePostgresVersion Background
          (fakeQuerier (Inr ''1'') (Inr zeroInfo) (Inr ''PostgreSQL 10.0 on x86_64''))
          [10, 0]) = None
   \<and> tupleLess [9, 6] [10, 0]"
proof -
  let ?q = "fakeQuerier (Inr ''1'') (Inr zeroInfo) (Inr ''PostgreSQL 10.0 on x86_64'')"
  have 1: "fst (runningPostgresVersion Background ?q) = Inr [10, 0]"
    by (simp add: run_defs)
  have 2: "LessThan [9, 6] [10, 0]"
    by (simp add: LessThan_def)
  show ?thesis
    using version_order_reflexive [of "[9, 6]" "[10, 0]" "[10, 0]" Background ?q] 1 2
    by simp
qed

section \<open>The timeout of the probe\<close>

text \<open>
  C8: \<open>ValidatePostgresConnection\<close> pings under a context derived from the caller's with
  a timeout of ten seconds (10000000000 nanoseconds) and cancels that context after the
  ping, whatever the ping returns. In a validation pass the ping and its cancellation are
  the only calls made under that derived context: every other call that takes a context
  is made under the caller's own.
\<close>

theorem probe_timeout:
  "ValidatePostgresConnection ctx pool =
     (Ping pool (WithTimeout ctx 10000000000),
      [CallPing (WithTimeout ctx 10000000000), CallCancel (WithTimeout ctx 10000000000)])
   \<and> Second * 10 = 10000000000
   \<and> (\<forall>c \<in> set (snd (snd (Validate Connect ctx e))).
        callContext c =
          (if isProbe c then Some (WithTimeout ctx (Second * 10))
           else if c = CallRelease then None
           else Some ctx))"
proof (intro conjI)
  show "ValidatePostgresConnection ctx pool =
     (Ping pool (WithTimeout ctx 10000000000),
      [CallPing (WithTimeout ctx 10000000000), CallCancel (WithTimeout ctx 10000000000)])"
    by (simp add: ValidatePostgresConnection_def Second_def Let_def)
  show "Second * 10 = 10000000000" by (simp add: Second_def)
  show "\<forall>c \<in> set (snd (snd (Validate Connect ctx e))).
        callContext c =
          (if isProbe c then Some (WithTimeout ctx (Second * 10))
           else if c = CallRelease then None
           else Some ctx)"
  proof (cases "Connect ctx (dsn e)")
    case (Inl err)
    then show ?thesis by (simp add: Validate_connect_failed callContext_def isProbe_def)
  next
    case (Inr p)
    show ?thesis
    proof (cases "Ping p (WithTimeout ctx (Second * 10))")
      case (Some err)
      then show ?thesis
        using Validate_ping_failed [of Connect ctx e p err] Inr
        by (simp add: callContext_def isProbe_def)
    next
      case None
      then show ?thesis
        using Validate_reachable [of Connect ctx e p] Inr
        by (simp add: callContext_def isProbe_def GetDatabaseId_calls GetDatabaseInfo_calls
              ValidatePostgresVersion_calls split: sum.splits)
    qed
  qed
qed

theorem probe_timeout_witness:
  "CallPing (WithTimeout Background 10000000000)
     \<in> set (snd (snd (Validate
          (fakeConnect (Inr (fakeStore None (Inr ''1'') (Inr zeroInfo)
                               (Inr ''PostgreSQL 13.4''))))
          Background (New ''postgres://localhost''))))
   \<and> callContext (CallPing (WithTimeout Background 10000000000))
       = Some (WithTimeout Background 10000000000)
   \<and> callContext (CallGet Background SystemIdentifierQuery) = Some Background"
proof -
  let ?pool = "fakeStore None (Inr ''1'') (Inr zeroInfo) (Inr ''PostgreSQL 13.4'')"
  let ?C = "fakeConnect (Inr ?pool)"
  let ?e = "New ''postgres://localhost''"
  have 1: "CallPing (WithTimeout Background 10000000000)
             \<in> set (snd (snd (Validate ?C Background ?e)))"
    by (simp add: run_defs)
  have 2: "CallGet Background SystemIdentifierQuery
             \<in> set (snd (snd (Validate ?C Background ?e)))"
    by (simp add: run_defs)
  have 3: "isProbe (CallPing (WithTimeout Background 10000000000))"
    and 4: "\<not> isProbe (CallGet Background SystemIdentifierQuery)"
    by (simp_all add: isProbe_def)
  from probe_timeout [of Background ?pool ?C ?e]
  have a: "\<forall>c \<in> set (snd (snd (Validate ?C Background ?e))).
        callContext c =
          (if isProbe c then Some (WithTimeout Background (Second * 10))
           else if c = CallRelease then None
           else Some Background)"
    and b: "Second * 10 = 10000000000" by blast+
  from a 1 3 b have "callContext (CallPing (WithTimeout Background 10000000000))
       = Some (WithTimeout Background 10000000000)" by force
  moreover from a 2 4
  have "callContext (CallGet Background SystemIdentifierQuery) = Some Background"
    by force
  ultimately show ?thesis using 1 by blast
qed

section \<open>Which error a pass returns\<close>

text \<open>
  C9: on a reachable store, when the version check fails the pass returns the error of the
  version check, whatever the identity query did: the identity error is dropped. When the
  version check succeeds the pass returns what the identity query left (its error, or
  none). So an error other than the version check's own is returned only when the version
  check succeeded.
\<close>

theorem version_error_priority:
  assumes "Connect ctx (dsn e) = Inr pool"
    and "Ping pool (WithTimeout ctx (Second * 10)) = None"
  shows "(fst (ValidatePostgresVersion ctx pool) = Some verr \<longrightarrow>
            fst (snd (Validate Connect ctx e)) = (True, Some verr))
         \<and> (fst (ValidatePostgresVersion ctx pool) = None \<longrightarrow>
            fst (snd (Validate Connect ctx e))
              = (True, snd (fst (GetDatabaseId ctx (Queries pool)))))
         \<and> (snd (fst (snd (Validate Connect ctx e))) \<noteq> fst (ValidatePostgresVersion ctx pool)
              \<longrightarrow> fst (ValidatePostgresVersion ctx pool) = None)"
  using Validate_reachable [of Connect ctx e pool] assms
  by (auto split: option.splits)

theorem version_error_priority_witness:
  "fst (snd (Validate
      (fakeConnect (Inr (fakeStore None (Inl (DriverError ''permission denied''))
                           (Inr zeroInfo) (Inr ''PostgreSQL 9.6''))))
      Background (New ''postgres://localhost'')))
   = (True, Some (UnsupportedVersion [9, 6] [10, 0]))"
proof -
  let ?pool = "fakeStore None (Inl (DriverError ''permission denied''))
                 (Inr zeroInfo) (Inr ''PostgreSQL 9.6'')"
  have 1: "fakeConnect (Inr ?pool) Background (dsn (New ''postgres://localhost'')) = Inr ?pool"
    by (simp add: fakeConnect_def)
  have 2: "Ping ?pool (WithTimeout Background (Second * 10)) = None"
    by (simp add: fakeStore_def)
  have 3: "fst (ValidatePostgresVersion Background ?pool)
             = Some (UnsupportedVersion [9, 6] [10, 0])"
    by (simp add: run_defs)
  show ?thesis
    using version_error_priority [of "fakeConnect (Inr ?pool)" Background
        "New ''postgres://localhost''" ?pool "UnsupportedVersion [9, 6] [10, 0]"] 1 2 3
    by blast
qed

section \<open>The cached identifier\<close>

text \<open>
  C10: \<open>Identifier\<close> looks only at the cached identifier: it returns the empty string and
  false when the cached identifier is empty, and the identifier and true otherwise. So it
  reports absence on a new executor, and also after a pass whose identity query succeeded
  with the empty string. It takes no connection and makes no call.
\<close>

theorem identifier_presence:
  "Identifier e = (if dbId e = [] then ([], False) else (dbId e, True))
   \<and> Identifier (New d) = ([], False)
   \<and> (Connect ctx (dsn e) = Inr pool \<and> Ping pool (WithTimeout ctx (Second * 10)) = None
        \<and> SystemIdentifier (Queries pool) ctx = Inr [] \<longrightarrow>
      Identifier (fst (Validate Connect ctx e)) = ([], False))"
proof (intro conjI impI)
  show "Identifier e = (if dbId e = [] then ([], False) else (dbId e, True))"
    by (simp add: Identifier_def)
  show "Identifier (New d) = ([], False)"
    by (simp add: Identifier_def New_def)
  assume a: "Connect ctx (dsn e) = Inr pool \<and> Ping pool (WithTimeout ctx (Second * 10)) = None
        \<and> SystemIdentifier (Queries pool) ctx = Inr []"
  then have "fst (fst (GetDatabaseId ctx (Queries pool))) = []"
    by (simp add: GetDatabaseId_def)
  then show "Identifier (fst (Validate Connect ctx e)) = ([], False)"
    using a Validate_reachable [of Connect ctx e pool] by (simp add: Identifier_def)
qed

theorem identifier_presence_witness:
  "Identifier (fst (Validate
      (fakeConnect (Inr (fakeStore None (Inr []) (Inr zeroInfo) (Inr ''PostgreSQL 13.4''))))
      Background (New ''postgres://localhost''))) = ([], False)
   \<and> Identifier \<lparr>dsn = ''postgres://localhost'', dbId = ''7000000000000000001'',
                  info = zeroInfo\<rparr>
       = (''7000000000000000001'', True)"
proof -
  let ?pool = "fakeStore None (Inr []) (Inr zeroInfo) (Inr ''PostgreSQL 13.4'')"
  have 1: "fakeConnect (Inr ?pool) Background (dsn (New ''postgres://localhost'')) = Inr ?pool"
    by (simp add: fakeConnect_def)
  have 2: "Ping ?pool (WithTimeout Background (Second * 10)) = None"
    by (simp add: fakeStore_def)
  have 3: "SystemIdentifier (Queries ?pool) Background = Inr []"
    by (simp add: fakeStore_def fakeQuerier_def)
  show ?thesis
    using identifier_presence [of "New ''postgres://localhost''" "''x''"
        "fakeConnect (Inr ?pool)" Background ?pool]
      identifier_presence [of "\<lparr>dsn = ''postgres://localhost'',
        dbId = ''7000000000000000001'', info = zeroInfo\<rparr>"]
      1 2 3
    by simp
qed

end
